theory Spec2Isabelle
  imports Complex_Main "HOL-Library.Word" "HOL-Library.Sublist"
begin

section \<open>JavaScript strings\<close>

text \<open>
  A JavaScript string is a sequence of UTF-16 code units. The regular expressions of
  \<open>digitUppercase\<close> carry no \<open>u\<close> flag, so their \<open>.\<close> consumes one code unit; every
  character the program writes lies in the Basic Multilingual Plane and is one code unit.
\<close>

type_synonym jschar = "16 word"
type_synonym jsstring = "jschar list"

definition ascii :: "string \<Rightarrow> jsstring" where
  "ascii cs = map (\<lambda>c. of_nat (of_char c)) cs"

text \<open>WhiteSpace and LineTerminator of ECMAScript: what \<open>trim\<close>, \<open>parseFloat\<close> and
  \<open>Number\<close> strip.\<close>

definition isLineTerminator :: "jschar \<Rightarrow> bool" where
  "isLineTerminator c \<longleftrightarrow> c = 0x000A \<or> c = 0x000D \<or> c = 0x2028 \<or> c = 0x2029"

definition isWhiteSpace :: "jschar \<Rightarrow> bool" where
  "isWhiteSpace c \<longleftrightarrow>
     c = 0x0009 \<or> c = 0x000B \<or> c = 0x000C \<or> c = 0x0020 \<or> c = 0x00A0 \<or> c = 0x1680 \<or>
     (0x2000 \<le> c \<and> c \<le> 0x200A) \<or> c = 0x202F \<or> c = 0x205F \<or> c = 0x3000 \<or> c = 0xFEFF \<or>
     isLineTerminator c"

definition trimStart :: "jsstring \<Rightarrow> jsstring" where
  "trimStart s = dropWhile isWhiteSpace s"

definition trim :: "jsstring \<Rightarrow> jsstring" where
  "trim s = rev (dropWhile isWhiteSpace (rev (dropWhile isWhiteSpace s)))"

section \<open>JavaScript numbers\<close>

text \<open>
  A Number is an IEEE 754 binary64 value. A finite value is kept as the rational it
  denotes; the two zeros are identified, which no operation of the program tells apart
  (\<open>digitUppercase\<close> starts with \<open>Math.abs\<close>, and the reducer only asks \<open>isNaN\<close>).
\<close>

datatype jsnum = NaN | PosInf | NegInf | Fin rat

definition pow2 :: "int \<Rightarrow> rat" where
  "pow2 e = (if 0 \<le> e then 2 ^ nat e else 1 / 2 ^ nat (- e))"

definition pow10 :: "int \<Rightarrow> rat" where
  "pow10 e = (if 0 \<le> e then 10 ^ nat e else 1 / 10 ^ nat (- e))"

text \<open>The number of binary digits of a positive integer.\<close>

function bitlength :: "int \<Rightarrow> int" where
  "bitlength n = (if n \<le> 0 then 0 else 1 + bitlength (n div 2))"
  by pat_completeness auto
termination
  by (relation "measure nat") auto

text \<open>\<open>ilog2 a\<close> is the integer \<open>e\<close> with \<open>2^e \<le> a < 2^(e+1)\<close>, for \<open>a > 0\<close>.\<close>

definition ilog2 :: "rat \<Rightarrow> int" where
  "ilog2 a = (if 1 \<le> a then bitlength \<lfloor>a\<rfloor> - 1 else - bitlength (\<lceil>1 / a\<rceil> - 1))"

definition round_half_even :: "rat \<Rightarrow> int" where
  "round_half_even x =
     (let n = \<lfloor>x\<rfloor>; r = x - of_int n
      in if r < 1 / 2 then n else if 1 / 2 < r then n + 1 else if even n then n else n + 1)"

text \<open>
  Rounding of an exact result to binary64, round-to-nearest, ties to even: 53 significant
  bits, the least quantum \<open>2^-1074\<close> (subnormals), overflow to infinity from \<open>2^1024\<close>.
\<close>

definition fl :: "rat \<Rightarrow> jsnum" where
  "fl q =
     (if q = 0 then Fin 0
      else let a = \<bar>q\<bar>;
               p = max (ilog2 a - 52) (- 1074);
               r = of_int (round_half_even (a / pow2 p)) * pow2 p
           in if pow2 1024 \<le> r then (if q < 0 then NegInf else PosInf)
              else Fin (if q < 0 then - r else r))"

definition isNaN :: "jsnum \<Rightarrow> bool" where
  "isNaN x \<longleftrightarrow> x = NaN"

fun js_neg :: "jsnum \<Rightarrow> jsnum" where
  "js_neg NaN = NaN"
| "js_neg PosInf = NegInf"
| "js_neg NegInf = PosInf"
| "js_neg (Fin q) = Fin (- q)"

fun Math_abs :: "jsnum \<Rightarrow> jsnum" where
  "Math_abs NaN = NaN"
| "Math_abs PosInf = PosInf"
| "Math_abs NegInf = PosInf"
| "Math_abs (Fin q) = Fin \<bar>q\<bar>"

fun Math_floor :: "jsnum \<Rightarrow> jsnum" where
  "Math_floor (Fin q) = Fin (of_int \<lfloor>q\<rfloor>)"
| "Math_floor x = x"

text \<open>
  The arithmetic of \<open>digitUppercase\<close> always has a positive finite constant on the right
  (\<open>10\<close>, or \<open>Math.pow(10, i)\<close> with \<open>i\<close> 0 or 1, which is exactly 1 or 10), so the
  right operand is that constant, as a rational \<open>c > 0\<close>.
\<close>

fun js_mul :: "jsnum \<Rightarrow> rat \<Rightarrow> jsnum" where
  "js_mul (Fin q) c = fl (q * c)"
| "js_mul x c = x"

fun js_div :: "jsnum \<Rightarrow> rat \<Rightarrow> jsnum" where
  "js_div (Fin q) c = fl (q / c)"
| "js_div x c = x"

text \<open>The remainder \<open>%\<close> truncates the quotient towards zero and is exact; an infinite
  dividend gives NaN.\<close>

fun js_mod :: "jsnum \<Rightarrow> rat \<Rightarrow> jsnum" where
  "js_mod (Fin q) c =
     Fin (q - c * of_int (if 0 \<le> q then \<lfloor>q / c\<rfloor> else \<lceil>q / c\<rceil>))"
| "js_mod x c = NaN"

text \<open>\<open>num > 0\<close>\<close>

fun js_gt0 :: "jsnum \<Rightarrow> bool" where
  "js_gt0 (Fin q) = (0 < q)"
| "js_gt0 PosInf = True"
| "js_gt0 x = False"

definition Math_pow10 :: "nat \<Rightarrow> rat" where
  "Math_pow10 i = 10 ^ i"

subsection \<open>Numbers from strings: \<open>parseFloat\<close> and \<open>Number\<close>\<close>

definition isDigit :: "jschar \<Rightarrow> bool" where
  "isDigit c \<longleftrightarrow> 0x30 \<le> c \<and> c \<le> 0x39"

definition hexValue :: "jschar \<Rightarrow> nat option" where
  "hexValue c =
     (if 0x30 \<le> c \<and> c \<le> 0x39 then Some (unat c - 0x30)
      else if 0x41 \<le> c \<and> c \<le> 0x46 then Some (unat c - 0x41 + 10)
      else if 0x61 \<le> c \<and> c \<le> 0x66 then Some (unat c - 0x61 + 10)
      else None)"

definition digitsValue :: "nat \<Rightarrow> jsstring \<Rightarrow> nat" where
  "digitsValue b ds = foldl (\<lambda>n c. b * n + (case hexValue c of None \<Rightarrow> 0 | Some v \<Rightarrow> v)) 0 ds"

text \<open>An optional ExponentPart: \<open>e\<close> or \<open>E\<close>, an optional sign, at least one digit.
  Without a digit nothing is consumed.\<close>

definition parseExponent :: "jsstring \<Rightarrow> int \<times> jsstring" where
  "parseExponent s =
     (case s of
        [] \<Rightarrow> (0, s)
      | c # t \<Rightarrow>
          if c = 0x65 \<or> c = 0x45 then
            (let neg = (case t of [] \<Rightarrow> False | d # _ \<Rightarrow> d = 0x2D);
                 u = (case t of [] \<Rightarrow> t | d # t' \<Rightarrow> if d = 0x2B \<or> d = 0x2D then t' else t);
                 ds = takeWhile isDigit u
             in if ds = [] then (0, s)
                else ((if neg then - int (digitsValue 10 ds) else int (digitsValue 10 ds)),
                      dropWhile isDigit u))
          else (0, s))"

text \<open>
  The longest prefix that is a StrUnsignedDecimalLiteral (\<open>Infinity\<close>, \<open>d.d\<close>, \<open>d.\<close>,
  \<open>.d\<close>, \<open>d\<close>, each of the last four with an optional exponent), its value rounded to
  binary64, and the text after it.
\<close>

definition parseUnsigned :: "jsstring \<Rightarrow> (jsnum \<times> jsstring) option" where
  "parseUnsigned s =
     (if prefix (ascii ''Infinity'') s then Some (PosInf, drop 8 s)
      else
        let ip = takeWhile isDigit s;
            r1 = dropWhile isDigit s;
            dotted = (case r1 of [] \<Rightarrow> False
                      | c # t \<Rightarrow> c = 0x2E \<and> (ip \<noteq> [] \<or> takeWhile isDigit t \<noteq> []));
            fp = (if dotted then takeWhile isDigit (tl r1) else []);
            r2 = (if dotted then dropWhile isDigit (tl r1) else r1)
        in if ip = [] \<and> fp = [] then None
           else let (e, r3) = parseExponent r2
                in Some (fl (of_nat (digitsValue 10 (ip @ fp)) * pow10 (e - int (length fp))), r3))"

text \<open>The longest prefix that is a StrDecimalLiteral: an optional sign, then the above.\<close>

definition parseSigned :: "jsstring \<Rightarrow> (jsnum \<times> jsstring) option" where
  "parseSigned s =
     (case s of
        [] \<Rightarrow> None
      | c # t \<Rightarrow>
          if c = 0x2B then parseUnsigned t
          else if c = 0x2D then map_option (\<lambda>(v, r). (js_neg v, r)) (parseUnsigned t)
          else parseUnsigned s)"

definition parseFloat :: "jsstring \<Rightarrow> jsnum" where
  "parseFloat s = (case parseSigned (trimStart s) of None \<Rightarrow> NaN | Some (v, r) \<Rightarrow> v)"

text \<open>NonDecimalIntegerLiteral: \<open>0x\<close>, \<open>0o\<close>, \<open>0b\<close> (either case) and digits of that base.\<close>

definition parseNonDecimal :: "jsstring \<Rightarrow> jsnum option" where
  "parseNonDecimal s =
     (case s of
        z # x # ds \<Rightarrow>
          (let b = (if x = 0x78 \<or> x = 0x58 then 16 else if x = 0x6F \<or> x = 0x4F then 8
                    else if x = 0x62 \<or> x = 0x42 then 2 else 0)
           in if z = 0x30 \<and> b \<noteq> 0 \<and> ds \<noteq> [] \<and>
                 list_all (\<lambda>c. case hexValue c of None \<Rightarrow> False | Some v \<Rightarrow> v < b) ds
              then Some (fl (of_nat (digitsValue b ds))) else None)
      | _ \<Rightarrow> None)"

text \<open>StringToNumber: white space is stripped on both sides, the empty string is 0, and the
  whole of what is left must be a numeric literal.\<close>

definition StringToNumber :: "jsstring \<Rightarrow> jsnum" where
  "StringToNumber s =
     (let t = trim s
      in if t = [] then Fin 0
         else case parseNonDecimal t of
                Some v \<Rightarrow> v
              | None \<Rightarrow> (case parseSigned t of
                           Some (v, []) \<Rightarrow> v
                         | _ \<Rightarrow> NaN))"

text \<open>The argument of \<open>digitUppercase\<close> has type \<open>string | number\<close>.\<close>

datatype jsarg = JStr jsstring | JNum jsnum

fun Number :: "jsarg \<Rightarrow> jsnum" where
  "Number (JStr s) = StringToNumber s"
| "Number (JNum x) = x"

text \<open>\<open>toString()\<close> of an integer Number (the components of a date).\<close>

function natToString :: "nat \<Rightarrow> jsstring" where
  "natToString n =
     (if n < 10 then [of_nat (0x30 + n)] else natToString (n div 10) @ [of_nat (0x30 + n mod 10)])"
  by pat_completeness auto
termination
  by (relation "measure (\<lambda>n. n)") auto

definition intToString :: "int \<Rightarrow> jsstring" where
  "intToString i = (if i < 0 then 0x2D # natToString (nat (- i)) else natToString (nat i))"

section \<open>Regular expressions\<close>

text \<open>
  The six patterns of \<open>digitUppercase\<close> are sequences of: one character, \<open>.\<close>, \<open>^\<close>,
  \<open>$\<close>, and a group of characters under \<open>*\<close> or \<open>+\<close>. The matcher backtracks as
  JavaScript's does: a greedy quantifier takes one more round of its group first and gives
  it back when the rest of the pattern fails. The flag says whether the position is the
  start of the input; the result is the text after the match.
\<close>

datatype atom = Lit jschar | Dot

datatype reterm = Atom atom | Star "atom list" | Plus "atom list" | Bol | Eol

type_synonym regex = "reterm list"

fun atom_ok :: "atom \<Rightarrow> jschar \<Rightarrow> bool" where
  "atom_ok (Lit a) c = (c = a)"
| "atom_ok Dot c = (\<not> isLineTerminator c)"

fun atoms :: "atom list \<Rightarrow> jsstring \<Rightarrow> jsstring option" where
  "atoms [] s = Some s"
| "atoms (a # as) [] = None"
| "atoms (a # as) (c # s) = (if atom_ok a c then atoms as s else None)"

lemma atoms_length: "atoms as s = Some s' \<Longrightarrow> length s' \<le> length s"
  by (induction as s rule: atoms.induct) (auto split: if_splits)

fun reterm_weight :: "reterm \<Rightarrow> nat" where
  "reterm_weight (Plus as) = 2"
| "reterm_weight t = 1"

function rmatch :: "regex \<Rightarrow> bool \<Rightarrow> jsstring \<Rightarrow> jsstring option" where
  "rmatch [] b s = Some s"
| "rmatch (Atom a # ts) b [] = None"
| "rmatch (Atom a # ts) b (c # s) = (if atom_ok a c then rmatch ts False s else None)"
| "rmatch (Bol # ts) b s = (if b then rmatch ts b s else None)"
| "rmatch (Eol # ts) b s = (if s = [] then rmatch ts b s else None)"
| "rmatch (Star as # ts) b s =
     (case atoms as s of
        None \<Rightarrow> rmatch ts b s
      | Some s' \<Rightarrow>
          if length s' < length s then
            (case rmatch (Star as # ts) False s' of
               Some r \<Rightarrow> Some r
             | None \<Rightarrow> rmatch ts b s)
          else rmatch ts b s)"
| "rmatch (Plus as # ts) b s =
     (case atoms as s of
        None \<Rightarrow> None
      | Some s' \<Rightarrow> rmatch (Star as # ts) (b \<and> length s' = length s) s')"
  by pat_completeness auto
termination
  by (relation "measures [\<lambda>(ts, b, s). length s, \<lambda>(ts, b, s). sum_list (map reterm_weight ts)]")
     (auto dest: atoms_length)

text \<open>The leftmost match: the text before it and the text after it.\<close>

fun rsearch :: "regex \<Rightarrow> bool \<Rightarrow> jsstring \<Rightarrow> (jsstring \<times> jsstring) option" where
  "rsearch re b [] = (case rmatch re b [] of None \<Rightarrow> None | Some r \<Rightarrow> Some ([], r))"
| "rsearch re b (c # s) =
     (case rmatch re b (c # s) of
        Some r \<Rightarrow> Some ([], r)
      | None \<Rightarrow> (case rsearch re False s of
                   None \<Rightarrow> None
                 | Some (p, r) \<Rightarrow> Some (c # p, r)))"

text \<open>\<open>s.replace(re, rep)\<close> without the \<open>g\<close> flag replaces the leftmost match only. No
  replacement text of the program contains \<open>$\<close>.\<close>

definition replace :: "regex \<Rightarrow> jsstring \<Rightarrow> jsstring \<Rightarrow> jsstring" where
  "replace re rep s = (case rsearch re True s of None \<Rightarrow> s | Some (p, r) \<Rightarrow> p @ rep @ r)"

text \<open>With the \<open>g\<close> flag every match is replaced, left to right; after an empty match the
  search moves on by one character.\<close>

function replace_from :: "regex \<Rightarrow> jsstring \<Rightarrow> bool \<Rightarrow> jsstring \<Rightarrow> jsstring" where
  "replace_from re rep b s =
     (case rmatch re b s of
        Some r \<Rightarrow>
          if length r < length s then rep @ replace_from re rep False r
          else (case s of [] \<Rightarrow> rep | c # s' \<Rightarrow> rep @ c # replace_from re rep False s')
      | None \<Rightarrow> (case s of [] \<Rightarrow> [] | c # s' \<Rightarrow> c # replace_from re rep False s'))"
  by pat_completeness auto
termination
  by (relation "measure (\<lambda>(re, rep, b, s). length s)") auto

definition replace_g :: "regex \<Rightarrow> jsstring \<Rightarrow> jsstring \<Rightarrow> jsstring" where
  "replace_g re rep s = replace_from re rep True s"

section \<open>Amount transcription: \<open>digitUppercase\<close>\<close>

text \<open>
  The characters of the three tables, by code point (the text of this file is ASCII):
  U+96F6 ling (zero), U+58F9 yi (one), U+8D30 er (two), U+53C1 san (three), U+8086 si (four),
  U+4F0D wu (five), U+9646 liu (six), U+67D2 qi (seven), U+634C ba (eight), U+7396 jiu (nine);
  U+89D2 jiao (tenth), U+5206 fen (hundredth); U+5143 yuan (the main unit), U+4E07 wan
  (ten thousand), U+4EBF yi (hundred million); U+62FE shi (ten), U+4F70 bai (hundred),
  U+4EDF qian (thousand); U+6574 zheng (exact).
\<close>

definition zi_ling :: jschar where "zi_ling = 0x96F6"
definition zi_jiao :: jschar where "zi_jiao = 0x89D2"
definition zi_fen :: jschar where "zi_fen = 0x5206"
definition zi_yuan :: jschar where "zi_yuan = 0x5143"
definition zi_wan :: jschar where "zi_wan = 0x4E07"
definition zi_yi :: jschar where "zi_yi = 0x4EBF"
definition zi_shi :: jschar where "zi_shi = 0x62FE"
definition zi_bai :: jschar where "zi_bai = 0x4F70"
definition zi_qian :: jschar where "zi_qian = 0x4EDF"
definition zi_zheng :: jschar where "zi_zheng = 0x6574"

definition fraction :: "jsstring list" where
  "fraction = [[zi_jiao], [zi_fen]]"

definition digit :: "jsstring list" where
  "digit = [[zi_ling], [0x58F9], [0x8D30], [0x53C1], [0x8086], [0x4F0D], [0x9646], [0x67D2],
            [0x634C], [0x7396]]"

definition unit :: "jsstring list list" where
  "unit = [[[zi_yuan], [zi_wan], [zi_yi]], [[], [zi_shi], [zi_bai], [zi_qian]]]"

text \<open>
  \<open>arr[x]\<close> for a Number \<open>x\<close>: the element when \<open>x\<close> is an index of the array, else
  \<open>undefined\<close> (\<open>None\<close>). Concatenation with a string turns \<open>undefined\<close> into the
  text "undefined".
\<close>

definition js_index :: "jsstring list \<Rightarrow> jsnum \<Rightarrow> jsstring option" where
  "js_index arr x =
     (case x of
        Fin q \<Rightarrow> if of_int \<lfloor>q\<rfloor> = q \<and> 0 \<le> q \<and> q < of_nat (length arr)
                 then Some (arr ! nat \<lfloor>q\<rfloor>) else None
      | _ \<Rightarrow> None)"

definition js_str :: "jsstring option \<Rightarrow> jsstring" where
  "js_str v = (case v of None \<Rightarrow> ascii ''undefined'' | Some s \<Rightarrow> s)"

text \<open>\<open>/\<zeta>./\<close>, \<open>/(\<zeta>.)*\<zeta>$/\<close>, \<open>/^$/\<close>, \<open>/(\<zeta>.)*\<zeta>Y/\<close>, \<open>/(\<zeta>.)+/g\<close>, \<open>/^Z$/\<close>, where
  \<open>\<zeta>\<close> is ling, \<open>Y\<close> is yuan and \<open>Z\<close> is zheng.\<close>

definition re_zero_any :: regex where
  "re_zero_any = [Atom (Lit zi_ling), Atom Dot]"

definition re_zeros_end :: regex where
  "re_zeros_end = [Star [Lit zi_ling, Dot], Atom (Lit zi_ling), Eol]"

definition re_empty :: regex where
  "re_empty = [Bol, Eol]"

definition re_zeros_yuan :: regex where
  "re_zeros_yuan = [Star [Lit zi_ling, Dot], Atom (Lit zi_ling), Atom (Lit zi_yuan)]"

definition re_zero_runs :: regex where
  "re_zero_runs = [Plus [Lit zi_ling, Dot]]"

definition re_zheng :: regex where
  "re_zheng = [Bol, Atom (Lit zi_zheng), Eol]"

text \<open>The loop over \<open>fraction\<close> (the decimal part).\<close>

function decimal_loop :: "jsnum \<Rightarrow> nat \<Rightarrow> jsstring \<Rightarrow> jsstring" where
  "decimal_loop num i s =
     (if i < length fraction then
        decimal_loop num (i + 1)
          (s @ replace re_zero_any []
                 (js_str (js_index digit
                            (js_mod (Math_floor (js_mul (js_mul num 10) (Math_pow10 i))) 10))
                  @ fraction ! i))
      else s)"
  by pat_completeness auto
termination
  by (relation "measure (\<lambda>(num, i, s). length fraction - i)") auto

text \<open>The inner loop over \<open>unit[1]\<close>: up to four digits of one group, lowest first. It
  returns the \<open>num\<close> that is left and the text \<open>p\<close> of the group.\<close>

function group_loop :: "nat \<Rightarrow> jsnum \<Rightarrow> jsstring \<Rightarrow> jsnum \<times> jsstring" where
  "group_loop j num p =
     (if j < length (unit ! 1) \<and> js_gt0 num then
        group_loop (j + 1) (Math_floor (js_div num 10))
          (js_str (js_index digit (js_mod num 10)) @ unit ! 1 ! j @ p)
      else (num, p))"
  by pat_completeness auto
termination
  by (relation "measure (\<lambda>(j, num, p). length (unit ! 1) - j)") auto

text \<open>The outer loop over \<open>unit[0]\<close>: the groups, lowest first, each put before \<open>s\<close>.\<close>

function integer_loop :: "nat \<Rightarrow> jsnum \<Rightarrow> jsstring \<Rightarrow> jsstring" where
  "integer_loop i num s =
     (if i < length (unit ! 0) \<and> js_gt0 num then
        (case group_loop 0 num [] of
           (num', p) \<Rightarrow>
             integer_loop (i + 1) num'
               (replace re_empty [zi_ling] (replace re_zeros_end [] p) @ unit ! 0 ! i @ s))
      else s)"
  by pat_completeness auto
termination
  by (relation "measure (\<lambda>(i, num, s). length (unit ! 0) - i)") auto

definition digitUppercase :: "jsarg \<Rightarrow> jsstring" where
  "digitUppercase n =
     (let num = Math_abs (Number n);
          s = decimal_loop num 0 [];
          s = (if s = [] then [zi_zheng] else s);
          num = Math_floor num;
          s = integer_loop 0 num s
      in replace re_zheng [zi_ling, zi_yuan, zi_zheng]
           (replace_g re_zero_runs [zi_ling] (replace re_zeros_yuan [zi_yuan] s)))"

section \<open>The data model\<close>

text \<open>\<open>PayeeInfo\<close>: an entry of the payee table. The source names its three fields in
  Chinese: the payee unit (shoukuan danwei), the bank account number (yinhang zhanghao)
  and the bank of deposit (kaihuhang).\<close>

record PayeeInfo =
  shoukuanDanwei :: jsstring
  yinhangZhanghao :: jsstring
  kaihuhang :: jsstring

record PaymentFormData =
  dept :: jsstring
  year :: jsstring
  month :: jsstring
  day :: jsstring
  serial :: jsstring
  payee :: jsstring
  bankAccount :: jsstring
  bankName :: jsstring
  amountChinese :: jsstring
  reason :: jsstring
  attachments :: jsstring
  amountNumeric :: jsstring
  leader :: jsstring
  financeManager :: jsstring
  deptManager :: jsstring
  operator :: jsstring
  accountant :: jsstring
  bookkeeper :: jsstring
  reviewer :: jsstring
  cashier :: jsstring
  maker :: jsstring
  receiver :: jsstring

definition initialFormData :: PaymentFormData where
  "initialFormData =
     \<lparr>dept = [], year = [], month = [], day = [], serial = [], payee = [], bankAccount = [],
      bankName = [], amountChinese = [], reason = [], attachments = [], amountNumeric = [],
      leader = [], financeManager = [], deptManager = [], operator = [], accountant = [],
      bookkeeper = [], reviewer = [], cashier = [], maker = [], receiver = []\<rparr>"

text \<open>\<open>keyof PaymentFormData\<close>\<close>

datatype key =
  K_dept | K_year | K_month | K_day | K_serial | K_payee | K_bankAccount | K_bankName
| K_amountChinese | K_reason | K_attachments | K_amountNumeric | K_leader | K_financeManager
| K_deptManager | K_operator | K_accountant | K_bookkeeper | K_reviewer | K_cashier | K_maker
| K_receiver

text \<open>\<open>{ ...currentForm, [key]: value }\<close>\<close>

fun set_key :: "key \<Rightarrow> jsstring \<Rightarrow> PaymentFormData \<Rightarrow> PaymentFormData" where
  "set_key K_dept v r = r\<lparr>dept := v\<rparr>"
| "set_key K_year v r = r\<lparr>year := v\<rparr>"
| "set_key K_month v r = r\<lparr>month := v\<rparr>"
| "set_key K_day v r = r\<lparr>day := v\<rparr>"
| "set_key K_serial v r = r\<lparr>serial := v\<rparr>"
| "set_key K_payee v r = r\<lparr>payee := v\<rparr>"
| "set_key K_bankAccount v r = r\<lparr>bankAccount := v\<rparr>"
| "set_key K_bankName v r = r\<lparr>bankName := v\<rparr>"
| "set_key K_amountChinese v r = r\<lparr>amountChinese := v\<rparr>"
| "set_key K_reason v r = r\<lparr>reason := v\<rparr>"
| "set_key K_attachments v r = r\<lparr>attachments := v\<rparr>"
| "set_key K_amountNumeric v r = r\<lparr>amountNumeric := v\<rparr>"
| "set_key K_leader v r = r\<lparr>leader := v\<rparr>"
| "set_key K_financeManager v r = r\<lparr>financeManager := v\<rparr>"
| "set_key K_deptManager v r = r\<lparr>deptManager := v\<rparr>"
| "set_key K_operator v r = r\<lparr>operator := v\<rparr>"
| "set_key K_accountant v r = r\<lparr>accountant := v\<rparr>"
| "set_key K_bookkeeper v r = r\<lparr>bookkeeper := v\<rparr>"
| "set_key K_reviewer v r = r\<lparr>reviewer := v\<rparr>"
| "set_key K_cashier v r = r\<lparr>cashier := v\<rparr>"
| "set_key K_maker v r = r\<lparr>maker := v\<rparr>"
| "set_key K_receiver v r = r\<lparr>receiver := v\<rparr>"

text \<open>\<open>new Date()\<close>: the system clock, read through \<open>getFullYear\<close>, \<open>getMonth\<close> (0 to 11)
  and \<open>getDate\<close>. It is an input of the reducers.\<close>

record Date =
  getFullYear :: int
  getMonth :: int
  getDate :: int

section \<open>The field cascade\<close>

text \<open>
  \<open>handleFormChange\<close> and \<open>handlePayeeSelect\<close> update one of the two forms held in the
  state. \<open>applyFieldChange\<close> and \<open>applySelectPayee\<close> are what they compute for that form
  (\<open>newData\<close> from \<open>currentForm\<close>): the specification's reducers.
\<close>

definition applyFieldChange ::
  "Date \<Rightarrow> PaymentFormData \<Rightarrow> key \<Rightarrow> jsstring \<Rightarrow> PaymentFormData" where
  "applyFieldChange now currentForm k v =
     (let newData = set_key k v currentForm;
          newData =
            (if k = K_amountNumeric then
               (let numVal = parseFloat v
                in if \<not> isNaN numVal \<and> v \<noteq> [] then
                     newData\<lparr>amountChinese := digitUppercase (JNum numVal)\<rparr>
                   else if v = [] then newData\<lparr>amountChinese := []\<rparr>
                   else newData)
             else newData)
      in if k = K_payee then
           (if v \<noteq> [] \<and> trim v \<noteq> [] then
              (if year newData = [] \<and> month newData = [] \<and> day newData = [] then
                 newData\<lparr>year := intToString (getFullYear now),
                         month := intToString (getMonth now + 1),
                         day := intToString (getDate now)\<rparr>
               else newData)
            else
              newData\<lparr>bankAccount := [], bankName := [], year := [], month := [], day := [],
                      amountChinese := [], amountNumeric := [], reason := [],
                      attachments := []\<rparr>)
         else newData)"

text \<open>\<open>x || ''\<close> on a string\<close>

definition or_empty :: "jsstring \<Rightarrow> jsstring" where
  "or_empty x = (if x \<noteq> [] then x else [])"

definition applySelectPayee :: "Date \<Rightarrow> PaymentFormData \<Rightarrow> PayeeInfo \<Rightarrow> PaymentFormData" where
  "applySelectPayee now form p =
     form\<lparr>payee := or_empty (shoukuanDanwei p),
          bankAccount := or_empty (yinhangZhanghao p),
          bankName := or_empty (kaihuhang p),
          year := intToString (getFullYear now),
          month := intToString (getMonth now + 1),
          day := intToString (getDate now)\<rparr>"

datatype index = I0 | I1

type_synonym forms = "PaymentFormData \<times> PaymentFormData"

fun handleFormChange :: "Date \<Rightarrow> index \<Rightarrow> key \<Rightarrow> jsstring \<Rightarrow> forms \<Rightarrow> forms" where
  "handleFormChange now I0 k v (f0, f1) = (applyFieldChange now f0 k v, f1)"
| "handleFormChange now I1 k v (f0, f1) = (f0, applyFieldChange now f1 k v)"

fun handlePayeeSelect :: "Date \<Rightarrow> index \<Rightarrow> PayeeInfo \<Rightarrow> forms \<Rightarrow> forms" where
  "handlePayeeSelect now I0 p (f0, f1) = (applySelectPayee now f0 p, f1)"
| "handlePayeeSelect now I1 p (f0, f1) = (f0, applySelectPayee now f1 p)"

text \<open>\<open>checkAndSavePayee\<close>: the payee table after the call, and the returned flag.\<close>

definition checkAndSavePayee :: "PayeeInfo list \<Rightarrow> PaymentFormData \<Rightarrow> PayeeInfo list \<times> bool" where
  "checkAndSavePayee payeeDb formData =
     (if payee formData \<noteq> [] \<and> bankAccount formData \<noteq> [] \<and> bankName formData \<noteq> [] then
        (let exists = list_ex (\<lambda>p. shoukuanDanwei p = payee formData \<and>
                                    yinhangZhanghao p = bankAccount formData) payeeDb
         in if \<not> exists then
              (payeeDb @ [\<lparr>shoukuanDanwei = payee formData,
                           yinhangZhanghao = bankAccount formData,
                           kaihuhang = bankName formData\<rparr>], True)
            else (payeeDb, False))
      else (payeeDb, False))"

text \<open>The records the user can reach from the all-empty record by field edits and payee
  selections, at any clock readings.\<close>

inductive reachable :: "PaymentFormData \<Rightarrow> bool" where
  init: "reachable initialFormData"
| change: "reachable r \<Longrightarrow> reachable (applyFieldChange now r k v)"
| select: "reachable r \<Longrightarrow> reachable (applySelectPayee now r p)"

text \<open>
  The invariant of the specification, in its words: whenever amount-in-digits is a valid
  non-empty number (as the reducer tests it: not empty, and \<open>parseFloat\<close> of it is not NaN),
  amount-in-words is its transcription; whenever amount-in-digits is empty, so is
  amount-in-words.
\<close>

definition words_follow_digits :: "PaymentFormData \<Rightarrow> bool" where
  "words_follow_digits r \<longleftrightarrow>
     (\<not> isNaN (parseFloat (amountNumeric r)) \<and> amountNumeric r \<noteq> [] \<longrightarrow>
        amountChinese r = digitUppercase (JNum (parseFloat (amountNumeric r)))) \<and>
     (amountNumeric r = [] \<longrightarrow> amountChinese r = [])"

text \<open>The records reached without a direct edit of the amount-in-words field.\<close>

inductive reachable_no_words_edit :: "PaymentFormData \<Rightarrow> bool" where
  init: "reachable_no_words_edit initialFormData"
| change: "reachable_no_words_edit r \<Longrightarrow> k \<noteq> K_amountChinese \<Longrightarrow>
           reachable_no_words_edit (applyFieldChange now r k v)"
| select: "reachable_no_words_edit r \<Longrightarrow> reachable_no_words_edit (applySelectPayee now r p)"

text \<open>A clock reading for the examples: 3 November 2026 (\<open>getMonth\<close> counts from 0).\<close>

definition now0 :: Date where
  "now0 = \<lparr>getFullYear = 2026, getMonth = 10, getDate = 3\<rparr>"

text \<open>The integer a decimal string denotes, with an optional leading minus sign: what a
  reader of a date field takes from it.\<close>

definition decimalValue :: "jsstring \<Rightarrow> int" where
  "decimalValue s =
     (case s of
        [] \<Rightarrow> 0
      | c # t \<Rightarrow> if c = 0x2D then - int (digitsValue 10 t) else int (digitsValue 10 s))"

section \<open>Evaluation rules\<close>

text \<open>The loops are unfolded one round at a time, under their guards.\<close>

declare bitlength.simps [simp del]
declare natToString.simps [simp del]
declare decimal_loop.simps [simp del]
declare group_loop.simps [simp del]
declare integer_loop.simps [simp del]
declare replace_from.simps [simp del]

lemma floor_rat_numeral_div:
  "\<lfloor>numeral a / numeral b :: rat\<rfloor> = numeral a div numeral b"
  by (metis floor_divide_of_int_eq of_int_numeral)

lemma floor_rat_one_div: "\<lfloor>1 / numeral b :: rat\<rfloor> = 1 div numeral b"
  by (metis floor_divide_of_int_eq of_int_numeral of_int_1)

lemma floor_rat_neg_numeral_div:
  "\<lfloor>- (numeral a / numeral b) :: rat\<rfloor> = - numeral a div numeral b"
  by (metis divide_minus_left floor_divide_of_int_eq of_int_neg_numeral of_int_numeral)

lemma ceiling_rat_numeral_div:
  "\<lceil>numeral a / numeral b :: rat\<rceil> = - (- numeral a div numeral b)"
  by (metis ceiling_def floor_rat_neg_numeral_div)

lemma ceiling_rat_one_div: "\<lceil>1 / numeral b :: rat\<rceil> = - (- 1 div numeral b)"
  by (metis ceiling_def divide_minus_left floor_divide_of_int_eq of_int_minus of_int_numeral
      of_int_1)

lemma bitlength_numeral: "bitlength (numeral k) = 1 + bitlength (numeral k div 2)"
  by (subst bitlength.simps) simp

lemma bitlength_0: "bitlength 0 = 0"
  by (subst bitlength.simps) simp

lemma bitlength_1: "bitlength 1 = 1"
  by (subst bitlength.simps) (simp add: bitlength_0)

lemmas fl_eval =
  fl_def ilog2_def round_half_even_def pow2_def Let_def
  floor_rat_numeral_div floor_rat_one_div floor_rat_neg_numeral_div
  ceiling_rat_numeral_div ceiling_rat_one_div
  bitlength_numeral bitlength_0 bitlength_1

lemma natToString_digit: "n < 10 \<Longrightarrow> natToString n = [of_nat (0x30 + n)]"
  by (subst natToString.simps) simp

lemma natToString_more:
  "\<not> n < 10 \<Longrightarrow> natToString n = natToString (n div 10) @ [of_nat (0x30 + n mod 10)]"
  by (subst natToString.simps) simp

lemmas toString_eval = intToString_def natToString_digit natToString_more

lemma decimal_loop_step:
  "i < length fraction \<Longrightarrow>
   decimal_loop num i s =
     decimal_loop num (i + 1)
       (s @ replace re_zero_any []
              (js_str (js_index digit
                         (js_mod (Math_floor (js_mul (js_mul num 10) (Math_pow10 i))) 10))
               @ fraction ! i))"
  by (subst decimal_loop.simps) simp

lemma decimal_loop_done: "\<not> i < length fraction \<Longrightarrow> decimal_loop num i s = s"
  by (subst decimal_loop.simps) simp

lemma group_loop_step:
  "j < length (unit ! 1) \<Longrightarrow> js_gt0 num \<Longrightarrow>
   group_loop j num p =
     group_loop (j + 1) (Math_floor (js_div num 10))
       (js_str (js_index digit (js_mod num 10)) @ unit ! 1 ! j @ p)"
  by (subst group_loop.simps) simp

lemma group_loop_done:
  "\<not> (j < length (unit ! 1) \<and> js_gt0 num) \<Longrightarrow> group_loop j num p = (num, p)"
  by (subst group_loop.simps) auto

lemma integer_loop_step:
  "i < length (unit ! 0) \<Longrightarrow> js_gt0 num \<Longrightarrow>
   integer_loop i num s =
     integer_loop (i + 1) (fst (group_loop 0 num []))
       (replace re_empty [zi_ling] (replace re_zeros_end [] (snd (group_loop 0 num [])))
        @ unit ! 0 ! i @ s)"
  by (subst integer_loop.simps) (simp add: case_prod_beta)

lemma integer_loop_done:
  "\<not> (i < length (unit ! 0) \<and> js_gt0 num) \<Longrightarrow> integer_loop i num s = s"
  by (subst integer_loop.simps) auto

lemmas zi_defs =
  zi_ling_def zi_jiao_def zi_fen_def zi_yuan_def zi_wan_def zi_yi_def zi_shi_def zi_bai_def
  zi_qian_def zi_zheng_def

lemmas re_eval =
  re_zero_any_def re_zeros_end_def re_empty_def re_zeros_yuan_def re_zero_runs_def
  re_zheng_def replace_def replace_g_def replace_from.simps isLineTerminator_def

lemmas digitUppercase_eval =
  digitUppercase_def fraction_def digit_def unit_def js_index_def js_str_def ascii_def
  Math_pow10_def decimal_loop_step decimal_loop_done group_loop_step group_loop_done
  integer_loop_step integer_loop_done

lemmas parse_eval =
  parseFloat_def StringToNumber_def parseNonDecimal_def parseSigned_def parseUnsigned_def
  parseExponent_def trim_def trimStart_def isWhiteSpace_def isLineTerminator_def isDigit_def
  digitsValue_def hexValue_def pow10_def ascii_def

lemma ascii_eq_Nil: "ascii cs = [] \<longleftrightarrow> cs = []"
  by (simp add: ascii_def)

text \<open>\<open>digitUppercase\<close> in three stages: the decimal part, the integer part, the three
  final replacements.\<close>

lemma digitUppercase_stages:
  assumes "decimal_loop (Math_abs (Number n)) 0 [] = d"
    and "integer_loop 0 (Math_floor (Math_abs (Number n))) (if d = [] then [zi_zheng] else d) = s"
    and "replace re_zheng [zi_ling, zi_yuan, zi_zheng]
           (replace_g re_zero_runs [zi_ling] (replace re_zeros_yuan [zi_yuan] s)) = out"
  shows "digitUppercase n = out"
  by (simp only: digitUppercase_def Let_def assms)

section \<open>Amount transcription on the test inputs\<close>

lemma digitUppercase_0: "digitUppercase (JNum (Fin 0)) = [0x96F6, 0x5143, 0x6574]"
proof (rule digitUppercase_stages)
  show "decimal_loop (Math_abs (Number (JNum (Fin 0)))) 0 [] = []"
    by (simp add: digitUppercase_eval fl_eval re_eval zi_defs)
  show "integer_loop 0 (Math_floor (Math_abs (Number (JNum (Fin 0)))))
          (if [] = [] then [zi_zheng] else []) = [zi_zheng]"
    by (simp add: digitUppercase_eval)
  show "replace re_zheng [zi_ling, zi_yuan, zi_zheng]
          (replace_g re_zero_runs [zi_ling] (replace re_zeros_yuan [zi_yuan] [zi_zheng]))
        = [0x96F6, 0x5143, 0x6574]"
    by (simp add: re_eval zi_defs)
qed

lemma digitUppercase_1005:
  "digitUppercase (JNum (Fin 1005)) = [0x58F9, 0x4EDF, 0x96F6, 0x4F0D, 0x5143, 0x6574]"
proof (rule digitUppercase_stages)
  show "decimal_loop (Math_abs (Number (JNum (Fin 1005)))) 0 [] = []"
    by (simp add: digitUppercase_eval fl_eval re_eval zi_defs)
  show "integer_loop 0 (Math_floor (Math_abs (Number (JNum (Fin 1005)))))
          (if [] = [] then [zi_zheng] else [])
        = [0x58F9, 0x4EDF, 0x96F6, 0x4F70, 0x96F6, 0x62FE, 0x4F0D, 0x5143, 0x6574]"
    by (simp add: digitUppercase_eval fl_eval re_eval zi_defs)
  show "replace re_zheng [zi_ling, zi_yuan, zi_zheng]
          (replace_g re_zero_runs [zi_ling]
             (replace re_zeros_yuan [zi_yuan]
                [0x58F9, 0x4EDF, 0x96F6, 0x4F70, 0x96F6, 0x62FE, 0x4F0D, 0x5143, 0x6574]))
        = [0x58F9, 0x4EDF, 0x96F6, 0x4F0D, 0x5143, 0x6574]"
    by (simp add: re_eval zi_defs)
qed

lemma digitUppercase_100000000:
  "digitUppercase (JNum (Fin 100000000)) = [0x58F9, 0x4EBF, 0x5143, 0x6574]"
proof (rule digitUppercase_stages)
  show "decimal_loop (Math_abs (Number (JNum (Fin 100000000)))) 0 [] = []"
    by (simp add: digitUppercase_eval fl_eval re_eval zi_defs)
  show "integer_loop 0 (Math_floor (Math_abs (Number (JNum (Fin 100000000)))))
          (if [] = [] then [zi_zheng] else [])
        = [0x58F9, 0x4EBF, 0x96F6, 0x4E07, 0x96F6, 0x5143, 0x6574]"
    by (simp add: digitUppercase_eval fl_eval re_eval zi_defs)
  show "replace re_zheng [zi_ling, zi_yuan, zi_zheng]
          (replace_g re_zero_runs [zi_ling]
             (replace re_zeros_yuan [zi_yuan]
                [0x58F9, 0x4EBF, 0x96F6, 0x4E07, 0x96F6, 0x5143, 0x6574]))
        = [0x58F9, 0x4EBF, 0x5143, 0x6574]"
    by (simp add: re_eval zi_defs)
qed

text \<open>
  Claim C3. \<open>digitUppercase\<close> (the specification's \<open>transcribeAmount\<close>) maps the three
  integer test inputs to the stated strings: 0 to ling yuan zheng (U+96F6 U+5143 U+6574);
  1005 to yi qian ling wu yuan zheng (U+58F9 U+4EDF U+96F6 U+4F0D U+5143 U+6574), the
  run of inner zero digits giving one zero marker; and 100000000 to yi yi yuan zheng
  (U+58F9 U+4EBF U+5143 U+6574), the two all-zero lower groups contributing nothing.
\<close>

theorem C3_integer_test_inputs:
  "digitUppercase (JNum (Fin 0)) = [0x96F6, 0x5143, 0x6574] \<and>
   digitUppercase (JNum (Fin 1005)) = [0x58F9, 0x4EDF, 0x96F6, 0x4F0D, 0x5143, 0x6574] \<and>
   digitUppercase (JNum (Fin 100000000)) = [0x58F9, 0x4EBF, 0x5143, 0x6574]"
  by (intro conjI digitUppercase_0 digitUppercase_1005 digitUppercase_100000000)

section \<open>Amount transcription on a fractional input\<close>

text \<open>The number literal \<open>1234.56\<close> denotes the binary64 value nearest to it, which lies
  a little below 1234.56.\<close>

lemma fl_1234_56: "fl (123456 / 100) = Fin (2714826150374277 / 2199023255552)"
  by (simp add: fl_eval)

text \<open>
  In binary64, \<open>num * 10\<close> is 12345.599999999999 and \<open>num * 10 * 10\<close> is
  123455.99999999999, so both digits taken by \<open>Math.floor(...) % 10\<close> are 5: the output
  ends wu jiao wu fen (U+4F0D U+89D2 U+4F0D U+5206).
\<close>

lemma digitUppercase_1234_56:
  "digitUppercase (JNum (Fin (2714826150374277 / 2199023255552)))
   = [0x58F9, 0x4EDF, 0x8D30, 0x4F70, 0x53C1, 0x62FE, 0x8086, 0x5143, 0x4F0D, 0x89D2, 0x4F0D, 0x5206]"
proof (rule digitUppercase_stages)
  show "decimal_loop (Math_abs (Number (JNum (Fin (2714826150374277 / 2199023255552))))) 0 []
        = [0x4F0D, 0x89D2, 0x4F0D, 0x5206]"
    by (simp add: digitUppercase_eval fl_eval re_eval zi_defs)
  show "integer_loop 0
          (Math_floor (Math_abs (Number (JNum (Fin (2714826150374277 / 2199023255552))))))
          (if [0x4F0D, 0x89D2, 0x4F0D, 0x5206] = [] then [zi_zheng]
           else [0x4F0D, 0x89D2, 0x4F0D, 0x5206])
        = [0x58F9, 0x4EDF, 0x8D30, 0x4F70, 0x53C1, 0x62FE, 0x8086, 0x5143,
           0x4F0D, 0x89D2, 0x4F0D, 0x5206]"
    by (simp add: digitUppercase_eval fl_eval re_eval zi_defs)
  show "replace re_zheng [zi_ling, zi_yuan, zi_zheng]
          (replace_g re_zero_runs [zi_ling]
             (replace re_zeros_yuan [zi_yuan]
                [0x58F9, 0x4EDF, 0x8D30, 0x4F70, 0x53C1, 0x62FE, 0x8086, 0x5143,
                 0x4F0D, 0x89D2, 0x4F0D, 0x5206]))
        = [0x58F9, 0x4EDF, 0x8D30, 0x4F70, 0x53C1, 0x62FE, 0x8086, 0x5143,
           0x4F0D, 0x89D2, 0x4F0D, 0x5206]"
    by (simp add: re_eval zi_defs)
qed

lemma parseFloat_1234_56:
  "parseFloat (ascii ''1234.56'') = Fin (2714826150374277 / 2199023255552)"
  by (simp add: parse_eval fl_eval)

lemma hundredths_1234_56:
  "Math_floor (js_mul (js_mul (Fin (2714826150374277 / 2199023255552)) 10) (Math_pow10 1))
   = Fin 123455"
  by (simp add: fl_eval Math_pow10_def)

text \<open>
  Claim C4, at its input. \<open>digitUppercase(1234.56)\<close> is yi qian er bai san shi si yuan wu
  jiao wu fen: the hundredths term is wu fen (digit 5, U+4F0D U+5206), where the claim and
  the decimal amount have liu fen (digit 6, U+9646 U+5206). The digit the loop extracts is
  that of \<open>Math.floor(num * 10 * Math.pow(10, 1))\<close>, which is 123455 in binary64, not
  123456. The same text is written to the amount-in-words field when "1234.56" is entered
  as the amount. (The digit 3 is U+53C1 of the \<open>digit\<close> table; the claim quotes the variant
  U+53C4.)
\<close>

theorem C4_fractional_input:
  "digitUppercase (JNum (fl (123456 / 100)))
   = [0x58F9, 0x4EDF, 0x8D30, 0x4F70, 0x53C1, 0x62FE, 0x8086, 0x5143,
      0x4F0D, 0x89D2, 0x4F0D, 0x5206] \<and>
   Math_floor (js_mul (js_mul (fl (123456 / 100)) 10) (Math_pow10 1)) = Fin 123455 \<and>
   amountChinese (applyFieldChange now0 initialFormData K_amountNumeric (ascii ''1234.56''))
   = [0x58F9, 0x4EDF, 0x8D30, 0x4F70, 0x53C1, 0x62FE, 0x8086, 0x5143,
      0x4F0D, 0x89D2, 0x4F0D, 0x5206]"
proof -
  have "amountChinese (applyFieldChange now0 initialFormData K_amountNumeric (ascii ''1234.56''))
        = digitUppercase (JNum (Fin (2714826150374277 / 2199023255552)))"
    by (simp add: applyFieldChange_def parseFloat_1234_56 isNaN_def ascii_eq_Nil)
  then show ?thesis
    by (simp only: fl_1234_56 digitUppercase_1234_56 hundredths_1234_56)
qed

section \<open>Non-numeric input\<close>

lemma decimal_loop_NaN:
  "decimal_loop NaN 0 [] = ascii ''undefined'' @ [0x89D2] @ ascii ''undefined'' @ [0x5206]"
  by (simp add: digitUppercase_eval re_eval zi_defs)

lemma digitUppercase_NaN:
  assumes "Number n = NaN"
  shows "digitUppercase n = ascii ''undefined'' @ [0x89D2] @ ascii ''undefined'' @ [0x5206]"
proof (rule digitUppercase_stages)
  show "decimal_loop (Math_abs (Number n)) 0 []
        = ascii ''undefined'' @ [0x89D2] @ ascii ''undefined'' @ [0x5206]"
    by (simp add: assms decimal_loop_NaN)
  show "integer_loop 0 (Math_floor (Math_abs (Number n)))
          (if ascii ''undefined'' @ [0x89D2] @ ascii ''undefined'' @ [0x5206] = []
           then [zi_zheng]
           else ascii ''undefined'' @ [0x89D2] @ ascii ''undefined'' @ [0x5206])
        = ascii ''undefined'' @ [0x89D2] @ ascii ''undefined'' @ [0x5206]"
    by (simp add: assms integer_loop_done ascii_def)
  show "replace re_zheng [zi_ling, zi_yuan, zi_zheng]
          (replace_g re_zero_runs [zi_ling]
             (replace re_zeros_yuan [zi_yuan]
                (ascii ''undefined'' @ [0x89D2] @ ascii ''undefined'' @ [0x5206])))
        = ascii ''undefined'' @ [0x89D2] @ ascii ''undefined'' @ [0x5206]"
    by (simp add: re_eval zi_defs ascii_def)
qed

lemma Number_abc: "Number (JStr (ascii ''abc'')) = NaN"
  by (simp add: parse_eval)

lemma Number_thousands_comma: "Number (JStr (ascii ''1,000'')) = NaN"
  by (simp add: parse_eval fl_eval)

text \<open>
  Claim C2, as amended. For every input that is not numeric (\<open>Number(n)\<close> is NaN),
  \<open>digitUppercase\<close> returns (it raises nothing) the fixed text "undefined", jiao,
  "undefined", fen: each failed lookup in the \<open>digit\<close> table is written out as the text
  "undefined" before the sub-unit name.
\<close>

theorem C2_non_numeric_input:
  "Number n = NaN \<Longrightarrow>
   digitUppercase n = ascii ''undefined'' @ [0x89D2] @ ascii ''undefined'' @ [0x5206]"
  by (rule digitUppercase_NaN)

theorem C2_non_numeric_input_witness:
  "Number (JStr (ascii ''1,000'')) = NaN \<and>
   digitUppercase (JStr (ascii ''1,000''))
   = ascii ''undefined'' @ [0x89D2] @ ascii ''undefined'' @ [0x5206]"
  using C2_non_numeric_input [OF Number_thousands_comma] Number_thousands_comma by simp

text \<open>
  Claim C2 as stated fails: on the text "abc", which is no number, the output carries the
  placeholder text "undefined" where the digit characters would stand.
\<close>

theorem C2_counterexample:
  "Number (JStr (ascii ''abc'')) = NaN \<and>
   digitUppercase (JStr (ascii ''abc''))
   = ascii ''undefined'' @ [0x89D2] @ ascii ''undefined'' @ [0x5206]"
  using digitUppercase_NaN [OF Number_abc] Number_abc by simp

section \<open>Checks of the number model\<close>

text \<open>The rounding and the two conversions on inputs whose binary64 results are known:
  0.1 is 3602879701896397 / 2^55, and above 2^53 only even integers are values, a tie
  going to the even significand.\<close>

lemma fl_known_values:
  "fl (1 / 10) = Fin (3602879701896397 / 36028797018963968) \<and>
   fl (2 ^ 53 + 1) = Fin (2 ^ 53) \<and>
   fl (2 ^ 53 + 3) = Fin (2 ^ 53 + 4)"
  by (simp add: fl_eval)

lemma Number_known_values:
  "Number (JStr (ascii ''0x1F'')) = Fin 31 \<and>
   Number (JStr []) = Fin 0 \<and>
   Number (JStr (ascii '' 12 '')) = Fin 12 \<and>
   Number (JStr (ascii ''12abc'')) = NaN \<and>
   Number (JStr (ascii ''-Infinity'')) = NegInf \<and>
   Number (JStr (ascii ''1e3'')) = Fin 1000"
  by (simp add: parse_eval fl_eval)

lemma parseFloat_known_values:
  "parseFloat (ascii ''12abc'') = Fin 12 \<and>
   parseFloat (ascii ''.5'') = Fin (1 / 2) \<and>
   parseFloat (ascii ''-.5e1x'') = Fin (- 5) \<and>
   parseFloat (ascii ''e5'') = NaN \<and>
   parseFloat [] = NaN \<and>
   parseFloat (ascii ''1234.56'') = Fin (2714826150374277 / 2199023255552)"
  by (simp add: parse_eval fl_eval)

section \<open>The amount fields under the reducers\<close>

lemma parseFloat_5: "parseFloat (ascii ''5'') = Fin 5"
  by (simp add: parse_eval fl_eval)

lemma digitUppercase_5: "digitUppercase (JNum (Fin 5)) = [0x4F0D, 0x5143, 0x6574]"
proof (rule digitUppercase_stages)
  show "decimal_loop (Math_abs (Number (JNum (Fin 5)))) 0 [] = []"
    by (simp add: digitUppercase_eval fl_eval re_eval zi_defs)
  show "integer_loop 0 (Math_floor (Math_abs (Number (JNum (Fin 5)))))
          (if [] = [] then [zi_zheng] else []) = [0x4F0D, 0x5143, 0x6574]"
    by (simp add: digitUppercase_eval fl_eval re_eval zi_defs)
  show "replace re_zheng [zi_ling, zi_yuan, zi_zheng]
          (replace_g re_zero_runs [zi_ling]
             (replace re_zeros_yuan [zi_yuan] [0x4F0D, 0x5143, 0x6574]))
        = [0x4F0D, 0x5143, 0x6574]"
    by (simp add: re_eval zi_defs)
qed

lemma amount_5:
  "applyFieldChange now0 initialFormData K_amountNumeric (ascii ''5'')
   = initialFormData\<lparr>amountNumeric := ascii ''5'', amountChinese := [0x4F0D, 0x5143, 0x6574]\<rparr>"
  by (simp add: applyFieldChange_def parseFloat_5 digitUppercase_5 isNaN_def ascii_eq_Nil)

lemma words_follow_digits_change:
  assumes "words_follow_digits r" and "k \<noteq> K_amountChinese"
  shows "words_follow_digits (applyFieldChange now r k v)"
  using assms by (cases k) (simp_all add: words_follow_digits_def applyFieldChange_def Let_def)

lemma words_follow_digits_select:
  "words_follow_digits r \<Longrightarrow> words_follow_digits (applySelectPayee now r p)"
  by (simp add: words_follow_digits_def applySelectPayee_def)

text \<open>
  Claim C1, as amended. Over the records reached from the all-empty initial record by
  \<open>applySelectPayee\<close> and by \<open>applyFieldChange\<close> on any field but amount-in-words:
  whenever amount-in-digits is a valid non-empty number, amount-in-words is
  \<open>digitUppercase\<close> of its \<open>parseFloat\<close>; whenever amount-in-digits is empty,
  amount-in-words is empty.
\<close>

theorem C1_words_follow_digits:
  "reachable_no_words_edit r \<Longrightarrow> words_follow_digits r"
proof (induction rule: reachable_no_words_edit.induct)
  case init
  show ?case by (simp add: words_follow_digits_def initialFormData_def)
next
  case (change r k now v)
  then show ?case by (simp add: words_follow_digits_change)
next
  case (select r now p)
  then show ?case by (simp add: words_follow_digits_select)
qed

theorem C1_words_follow_digits_witness:
  "reachable_no_words_edit (applyFieldChange now0 initialFormData K_amountNumeric (ascii ''5'')) \<and>
   words_follow_digits (applyFieldChange now0 initialFormData K_amountNumeric (ascii ''5'')) \<and>
   amountNumeric (applyFieldChange now0 initialFormData K_amountNumeric (ascii ''5''))
     = ascii ''5'' \<and>
   amountChinese (applyFieldChange now0 initialFormData K_amountNumeric (ascii ''5''))
     = [0x4F0D, 0x5143, 0x6574]"
proof -
  have r: "reachable_no_words_edit
             (applyFieldChange now0 initialFormData K_amountNumeric (ascii ''5''))"
    by (rule reachable_no_words_edit.change [OF reachable_no_words_edit.init]) simp
  from C1_words_follow_digits [OF r] r show ?thesis
    by (simp add: amount_5)
qed

text \<open>
  Claim C1 as stated fails: the invariant does not survive a direct edit of the
  amount-in-words field. After the digits "5" (words wu yuan zheng) the edit writes "x"
  over the words; and from the initial record, whose digits are empty, it makes the words
  "x". Both records are reachable.
\<close>

theorem C1_counterexample:
  "reachable (applyFieldChange now0
      (applyFieldChange now0 initialFormData K_amountNumeric (ascii ''5''))
      K_amountChinese (ascii ''x'')) \<and>
   \<not> words_follow_digits (applyFieldChange now0
      (applyFieldChange now0 initialFormData K_amountNumeric (ascii ''5''))
      K_amountChinese (ascii ''x'')) \<and>
   reachable (applyFieldChange now0 initialFormData K_amountChinese (ascii ''x'')) \<and>
   \<not> words_follow_digits (applyFieldChange now0 initialFormData K_amountChinese (ascii ''x''))"
proof -
  have "applyFieldChange now0
          (applyFieldChange now0 initialFormData K_amountNumeric (ascii ''5''))
          K_amountChinese (ascii ''x'')
        = initialFormData\<lparr>amountNumeric := ascii ''5'', amountChinese := ascii ''x''\<rparr>"
    by (simp add: amount_5) (simp add: applyFieldChange_def)
  then have "\<not> words_follow_digits (applyFieldChange now0
      (applyFieldChange now0 initialFormData K_amountNumeric (ascii ''5''))
      K_amountChinese (ascii ''x''))"
    by (simp add: words_follow_digits_def parseFloat_5 digitUppercase_5 isNaN_def ascii_eq_Nil)
       (simp add: ascii_def)
  moreover have "\<not> words_follow_digits
                    (applyFieldChange now0 initialFormData K_amountChinese (ascii ''x''))"
    by (simp add: words_follow_digits_def applyFieldChange_def initialFormData_def ascii_eq_Nil)
  ultimately show ?thesis
    by (intro conjI reachable.change reachable.init)
qed

section \<open>The payee cascade\<close>

text \<open>
  Claim C5. For every record, \<open>applyFieldChange(record, 'payee', '')\<close> returns the record
  with payee, bank account, bank name, year, month, day, amount-in-words,
  amount-in-digits, reason and attachment count all empty, and every other field (the
  ten signature names, serial and department) as it was.
\<close>

theorem C5_clearing_payee:
  "applyFieldChange now r K_payee [] =
     r\<lparr>payee := [], bankAccount := [], bankName := [], year := [], month := [], day := [],
       amountChinese := [], amountNumeric := [], reason := [], attachments := []\<rparr>"
  by (simp add: applyFieldChange_def)

lemma trim_all_white:
  assumes "list_all isWhiteSpace v"
  shows "trim v = []"
proof -
  from assms have empty: "dropWhile isWhiteSpace v = []"
    by (induction v) auto
  show ?thesis unfolding trim_def empty by simp
qed

lemma trim_nonempty: "trim v \<noteq> [] \<Longrightarrow> v \<noteq> []"
  by (auto simp: trim_def)

lemma trim_ACME: "trim (ascii ''ACME'') \<noteq> []"
  by (simp add: parse_eval)

lemma today:
  "intToString (getFullYear now0) = ascii ''2026'' \<and>
   intToString (getMonth now0 + 1) = ascii ''11'' \<and>
   intToString (getDate now0) = ascii ''3''"
  by (simp add: now0_def toString_eval ascii_def)

text \<open>
  Claim C6, as amended. Let \<open>v\<close> be a value that is not empty after trimming white space.
  For every record whose three date fields are all empty,
  \<open>applyFieldChange(record, 'payee', v)\<close> sets year, month and day to the current date
  (year, month counted from 1, day, as decimal strings); for every record in which a date
  field is not empty, the call leaves all three date fields as they were.
\<close>

theorem C6_autofill_date:
  assumes "trim v \<noteq> []"
  shows "(year r = [] \<and> month r = [] \<and> day r = [] \<longrightarrow>
            year (applyFieldChange now r K_payee v) = intToString (getFullYear now) \<and>
            month (applyFieldChange now r K_payee v) = intToString (getMonth now + 1) \<and>
            day (applyFieldChange now r K_payee v) = intToString (getDate now)) \<and>
         (\<not> (year r = [] \<and> month r = [] \<and> day r = []) \<longrightarrow>
            year (applyFieldChange now r K_payee v) = year r \<and>
            month (applyFieldChange now r K_payee v) = month r \<and>
            day (applyFieldChange now r K_payee v) = day r)"
  using assms trim_nonempty [OF assms] by (simp add: applyFieldChange_def Let_def)

theorem C6_autofill_date_witness:
  "trim (ascii ''ACME'') \<noteq> [] \<and>
   year (applyFieldChange now0 initialFormData K_payee (ascii ''ACME'')) = ascii ''2026'' \<and>
   month (applyFieldChange now0 initialFormData K_payee (ascii ''ACME'')) = ascii ''11'' \<and>
   day (applyFieldChange now0 initialFormData K_payee (ascii ''ACME'')) = ascii ''3'' \<and>
   year (applyFieldChange now0 (initialFormData\<lparr>year := ascii ''2024''\<rparr>) K_payee
           (ascii ''ACME'')) = ascii ''2024'' \<and>
   month (applyFieldChange now0 (initialFormData\<lparr>year := ascii ''2024''\<rparr>) K_payee
            (ascii ''ACME'')) = [] \<and>
   day (applyFieldChange now0 (initialFormData\<lparr>year := ascii ''2024''\<rparr>) K_payee
          (ascii ''ACME'')) = []"
  using C6_autofill_date [OF trim_ACME, of initialFormData now0]
    C6_autofill_date [OF trim_ACME, of "initialFormData\<lparr>year := ascii ''2024''\<rparr>" now0]
    trim_ACME today
  by (simp add: initialFormData_def ascii_def)

text \<open>
  Claim C6 as stated fails for a value that is not empty but is all white space, here one
  space (U+0020): from the all-empty record the year stays empty, not "2026"; and a year
  "2024" already present is cleared.
\<close>

theorem C6_counterexample:
  "[0x20] \<noteq> ([] :: jsstring) \<and>
   intToString (getFullYear now0) = ascii ''2026'' \<and>
   year (applyFieldChange now0 initialFormData K_payee [0x20]) = [] \<and>
   year (applyFieldChange now0 (initialFormData\<lparr>year := ascii ''2024''\<rparr>) K_payee [0x20]) = []"
  using today by (simp add: applyFieldChange_def initialFormData_def parse_eval)

text \<open>\<open>toString()\<close> of an integer writes its decimal digits, a minus sign first when it
  is negative: read back as a decimal, the string is the integer.\<close>

lemma decimal_digit_char:
  assumes "d < 10"
  shows "hexValue (of_nat (0x30 + d)) = Some d \<and> isDigit (of_nat (0x30 + d))
         \<and> (of_nat (0x30 + d) :: jschar) \<noteq> 0x2D"
proof -
  from assms have "d = 0 \<or> d = 1 \<or> d = 2 \<or> d = 3 \<or> d = 4 \<or> d = 5 \<or> d = 6 \<or> d = 7 \<or>
    d = 8 \<or> d = 9"
    by arith
  then show ?thesis
    by (elim disjE) (simp_all add: hexValue_def isDigit_def)
qed
lemma digitsValue_snoc:
  "digitsValue b (ds @ [c]) = b * digitsValue b ds + (case hexValue c of None \<Rightarrow> 0 | Some v \<Rightarrow> v)"
  by (simp add: digitsValue_def)
lemma digitsValue_single:
  "digitsValue b [c] = (case hexValue c of None \<Rightarrow> 0 | Some v \<Rightarrow> v)"
  by (simp add: digitsValue_def)
lemma natToString_value: "digitsValue 10 (natToString n) = n"
proof (induction n rule: natToString.induct)
  case (1 n)
  show ?case
  proof (cases "n < 10")
    case True
    then show ?thesis
      using decimal_digit_char [of n] by (simp add: natToString_digit digitsValue_single)
  next
    case False
    with 1 have "digitsValue 10 (natToString (n div 10)) = n div 10" by simp
    with False show ?thesis
      using decimal_digit_char [of "n mod 10"]
      by (simp add: natToString_more digitsValue_snoc)
  qed
qed
lemma natToString_digits: "natToString n \<noteq> [] \<and> list_all isDigit (natToString n)"
proof (induction n rule: natToString.induct)
  case (1 n)
  show ?case
  proof (cases "n < 10")
    case True
    then show ?thesis
      using decimal_digit_char [of n] by (simp add: natToString_digit)
  next
    case False
    with 1 have "list_all isDigit (natToString (n div 10))" by simp
    with False show ?thesis
      using decimal_digit_char [of "n mod 10"] by (simp add: natToString_more)
  qed
qed
lemma natToString_no_sign: "natToString n = c # t \<Longrightarrow> c \<noteq> 0x2D"
  using natToString_digits [of n] by (auto simp: isDigit_def)
lemma decimalValue_intToString: "decimalValue (intToString i) = i"
proof (cases "i < 0")
  case True
  then show ?thesis
    by (simp add: decimalValue_def intToString_def natToString_value)
next
  case False
  obtain c t where ct: "natToString (nat i) = c # t"
    using natToString_digits [of "nat i"] by (cases "natToString (nat i)") auto
  from natToString_no_sign [OF ct] have "c \<noteq> 0x2D" .
  moreover have "digitsValue 10 (c # t) = nat i"
    using natToString_value [of "nat i"] ct by simp
  ultimately show ?thesis
    using False ct by (simp add: decimalValue_def intToString_def)
qed

text \<open>
  Claim C7. For every record and every lookup entry, \<open>applySelectPayee(record, entry)\<close>
  overwrites payee name, bank account and bank name with the entry's values and the three
  date fields with the current date, whatever the record's dates were; the other fields
  stay. The date fields hold decimal strings that read back as the clock's year, its month
  counted from 1, and its day.
\<close>

theorem C7_select_payee:
  "applySelectPayee now r p =
     r\<lparr>payee := shoukuanDanwei p, bankAccount := yinhangZhanghao p, bankName := kaihuhang p,
       year := intToString (getFullYear now), month := intToString (getMonth now + 1),
       day := intToString (getDate now)\<rparr> \<and>
   decimalValue (year (applySelectPayee now r p)) = getFullYear now \<and>
   decimalValue (month (applySelectPayee now r p)) = getMonth now + 1 \<and>
   decimalValue (day (applySelectPayee now r p)) = getDate now"
  by (simp add: applySelectPayee_def or_empty_def decimalValue_intToString)

theorem C7_select_payee_witness:
  "applySelectPayee now0
     (initialFormData\<lparr>payee := ascii ''Old'', year := ascii ''1999'', month := ascii ''1'',
        day := ascii ''2'', reason := ascii ''rent''\<rparr>)
     \<lparr>shoukuanDanwei = ascii ''ACME'', yinhangZhanghao = ascii ''6222'', kaihuhang = ascii ''ICBC''\<rparr>
   = initialFormData\<lparr>payee := ascii ''ACME'', bankAccount := ascii ''6222'',
       bankName := ascii ''ICBC'', year := ascii ''2026'', month := ascii ''11'',
       day := ascii ''3'', reason := ascii ''rent''\<rparr>"
  using C7_select_payee [of now0
     "initialFormData\<lparr>payee := ascii ''Old'', year := ascii ''1999'', month := ascii ''1'',
        day := ascii ''2'', reason := ascii ''rent''\<rparr>"
     "\<lparr>shoukuanDanwei = ascii ''ACME'', yinhangZhanghao = ascii ''6222'', kaihuhang = ascii ''ICBC''\<rparr>"]
    today
  by (simp add: initialFormData_def)

text \<open>
  Claim C8. With the clock held fixed, for every record, field and value, applying
  \<open>applyFieldChange\<close> twice with the same field and value gives the same record as
  applying it once.
\<close>

theorem C8_idempotence:
  "applyFieldChange now (applyFieldChange now r k v) k v = applyFieldChange now r k v"
  by (cases k) (simp_all add: applyFieldChange_def Let_def)

text \<open>
  Claim C9. For every payee table and every record whose payee name, bank account and
  bank name are all non-empty: if the table has an entry with the same payee name and the
  same bank account (its bank name may differ), \<open>checkAndSavePayee\<close> leaves the table
  unchanged (and returns false).
\<close>

theorem C9_lookup_dedup:
  assumes "payee r \<noteq> []" and "bankAccount r \<noteq> []" and "bankName r \<noteq> []"
    and "list_ex (\<lambda>p. shoukuanDanwei p = payee r \<and> yinhangZhanghao p = bankAccount r) db"
  shows "checkAndSavePayee db r = (db, False)"
  using assms by (simp add: checkAndSavePayee_def)

theorem C9_lookup_dedup_witness:
  "payee (initialFormData\<lparr>payee := ascii ''ACME'', bankAccount := ascii ''6222'',
            bankName := ascii ''ICBC''\<rparr>) \<noteq> [] \<and>
   bankAccount (initialFormData\<lparr>payee := ascii ''ACME'', bankAccount := ascii ''6222'',
            bankName := ascii ''ICBC''\<rparr>) \<noteq> [] \<and>
   bankName (initialFormData\<lparr>payee := ascii ''ACME'', bankAccount := ascii ''6222'',
            bankName := ascii ''ICBC''\<rparr>) \<noteq> [] \<and>
   checkAndSavePayee
     [\<lparr>shoukuanDanwei = ascii ''Other'', yinhangZhanghao = ascii ''6222'',
       kaihuhang = ascii ''ICBC''\<rparr>,
      \<lparr>shoukuanDanwei = ascii ''ACME'', yinhangZhanghao = ascii ''6222'',
       kaihuhang = ascii ''CCB''\<rparr>]
     (initialFormData\<lparr>payee := ascii ''ACME'', bankAccount := ascii ''6222'',
        bankName := ascii ''ICBC''\<rparr>)
   = ([\<lparr>shoukuanDanwei = ascii ''Other'', yinhangZhanghao = ascii ''6222'',
        kaihuhang = ascii ''ICBC''\<rparr>,
       \<lparr>shoukuanDanwei = ascii ''ACME'', yinhangZhanghao = ascii ''6222'',
        kaihuhang = ascii ''CCB''\<rparr>], False)"
  using C9_lookup_dedup
    [of "initialFormData\<lparr>payee := ascii ''ACME'', bankAccount := ascii ''6222'',
           bankName := ascii ''ICBC''\<rparr>"
        "[\<lparr>shoukuanDanwei = ascii ''Other'', yinhangZhanghao = ascii ''6222'',
           kaihuhang = ascii ''ICBC''\<rparr>,
          \<lparr>shoukuanDanwei = ascii ''ACME'', yinhangZhanghao = ascii ''6222'',
           kaihuhang = ascii ''CCB''\<rparr>]"]
  by (simp add: ascii_def)

text \<open>
  Claim C10. For every record, \<open>applyFieldChange(record, 'payee', v)\<close> with \<open>v\<close> a non-empty
  string of white space only takes the clearing branch: it writes \<open>v\<close> into the payee
  field and empties bank account, bank name, year, month, day, amount-in-words,
  amount-in-digits, reason and attachment count; the date fields are not populated.
\<close>

theorem C10_blank_payee_clears:
  assumes "v \<noteq> []" and "list_all isWhiteSpace v"
  shows "applyFieldChange now r K_payee v =
     r\<lparr>payee := v, bankAccount := [], bankName := [], year := [], month := [], day := [],
       amountChinese := [], amountNumeric := [], reason := [], attachments := []\<rparr>"
  using assms by (simp add: applyFieldChange_def trim_all_white)

theorem C10_blank_payee_clears_witness:
  "[0x20, 0x3000] \<noteq> ([] :: jsstring) \<and> list_all isWhiteSpace [0x20, 0x3000] \<and>
   applyFieldChange now0
     (initialFormData\<lparr>year := ascii ''2024'', bankName := ascii ''ICBC''\<rparr>) K_payee
     [0x20, 0x3000]
   = initialFormData\<lparr>payee := [0x20, 0x3000]\<rparr>"
proof -
  have ws: "list_all isWhiteSpace [0x20, 0x3000]"
    by (simp add: isWhiteSpace_def)
  have ne: "[0x20, 0x3000] \<noteq> ([] :: jsstring)"
    by simp
  show ?thesis
    using C10_blank_payee_clears [OF ne ws, of now0
        "initialFormData\<lparr>year := ascii ''2024'', bankName := ascii ''ICBC''\<rparr>"] ws
    by (simp add: initialFormData_def)
qed

end
